theory Spec2Isabelle
  imports Complex_Main "HOL-Library.Sublist" "HOL-Library.AList"
begin

section \<open>Data model: the WSN event table\<close>

text \<open>
  A pandas float64 cell. Ordered comparisons with \<open>NaN\<close> are false, the two infinities
  bound every finite value. Finite values are kept as reals (every binary64 number is
  one), so the comparisons of the model agree with the comparisons of the code; rounding
  of arithmetic is not part of the model.
\<close>

datatype pyfloat = NaN | NInf | Fin real | PInf

text \<open>\<open>fle a b\<close> is Python's \<open>a <= b\<close> (and \<open>b >= a\<close>) on floats.\<close>

fun fle :: "pyfloat \<Rightarrow> pyfloat \<Rightarrow> bool" where
  "fle NaN _ = False"
| "fle _ NaN = False"
| "fle NInf _ = True"
| "fle _ PInf = True"
| "fle (Fin a) (Fin b) = (a \<le> b)"
| "fle PInf _ = False"
| "fle _ NInf = False"

text \<open>
  One row of the DataFrame that \<open>load_data\<close> returns: the six columns it coerces
  (\<open>Event\<close>, \<open>S_Node\<close>, \<open>Node_id\<close> to int, \<open>Time\<close>, \<open>Rest_Energy\<close> to float,
  \<open>Class\<close> to str). The twelve pass-through columns, any extra column and the index
  label of the row live in the extension part of the record, which no function below
  reads or changes.
\<close>

record row =
  Event :: int
  Time :: pyfloat
  S_Node :: int
  Node_id :: int
  Rest_Energy :: pyfloat
  Class :: string

text \<open>A DataFrame is the sequence of its rows, in index order.\<close>

type_synonym 'a dataset = "'a row_scheme list"

section \<open>\<open>filter_data\<close> (utils.py)\<close>

text \<open>
  Python truthiness of an optional list argument: \<open>None\<close> and the empty list are
  falsy, every other list is truthy.
\<close>

fun truthy :: "'b list option \<Rightarrow> bool" where
  "truthy None = False"
| "truthy (Some []) = False"
| "truthy (Some (x # xs)) = True"

text \<open>\<open>Series.isin(values)\<close> as a row mask: membership of the cell in the given list.\<close>

definition isin :: "'b \<Rightarrow> 'b list option \<Rightarrow> bool" where
  "isin v values = (case values of None \<Rightarrow> False | Some vs \<Rightarrow> v \<in> set vs)"

text \<open>
  \<open>time_range\<close> is \<open>None\<close> or a pair \<open>(min_time, max_time)\<close>; a pair is a non-empty
  tuple, hence truthy whatever its components are. Boolean-mask indexing
  \<open>filtered_df[mask]\<close> keeps the rows whose mask is true, in their order.
\<close>

definition filter_data ::
  "'a dataset \<Rightarrow> (pyfloat \<times> pyfloat) option \<Rightarrow> int list option \<Rightarrow> string list option
     \<Rightarrow> 'a dataset" where
  "filter_data df time_range node_ids classes =
     (let filtered_df = df;
          filtered_df =
            (case time_range of
               None \<Rightarrow> filtered_df
             | Some (min_time, max_time) \<Rightarrow>
                 filter (\<lambda>r. fle min_time (Time r) \<and> fle (Time r) max_time) filtered_df);
          filtered_df =
            (if truthy node_ids
             then filter (\<lambda>r. isin (Node_id r) node_ids) filtered_df
             else filtered_df);
          filtered_df =
            (if truthy classes
             then filter (\<lambda>r. isin (Class r) classes) filtered_df
             else filtered_df)
      in filtered_df)"

text \<open>The three clauses as one row predicate, a clause that is not applied being true.\<close>

definition keeps ::
  "(pyfloat \<times> pyfloat) option \<Rightarrow> int list option \<Rightarrow> string list option
     \<Rightarrow> 'a row_scheme \<Rightarrow> bool" where
  "keeps tr ns cs r =
     ((case tr of
         None \<Rightarrow> True
       | Some (min_time, max_time) \<Rightarrow> fle min_time (Time r) \<and> fle (Time r) max_time)
      \<and> (if truthy ns then isin (Node_id r) ns else True)
      \<and> (if truthy cs then isin (Class r) cs else True))"

subsection \<open>\<open>filter_data\<close> on a store of DataFrame objects\<close>

text \<open>
  To speak about mutation the DataFrames are objects in a store, addressed by their
  position; a new object is appended. \<open>df.copy()\<close> and every boolean-mask indexing
  \<open>filtered_df[mask]\<close> build a new object; \<open>filter_data\<close> has no statement that
  writes to an existing one.
\<close>

type_synonym 'a store = "'a dataset list"

definition alloc :: "'a store \<Rightarrow> 'a dataset \<Rightarrow> nat \<times> 'a store" where
  "alloc s d = (length s, s @ [d])"

definition filter_data_st ::
  "'a store \<Rightarrow> nat \<Rightarrow> (pyfloat \<times> pyfloat) option \<Rightarrow> int list option \<Rightarrow> string list option
     \<Rightarrow> nat \<times> 'a store" where
  "filter_data_st s df time_range node_ids classes =
     (let (filtered_df, s) = alloc s (s ! df);
          (filtered_df, s) =
            (case time_range of
               None \<Rightarrow> (filtered_df, s)
             | Some (min_time, max_time) \<Rightarrow>
                 alloc s (filter (\<lambda>r. fle min_time (Time r) \<and> fle (Time r) max_time)
                            (s ! filtered_df)));
          (filtered_df, s) =
            (if truthy node_ids
             then alloc s (filter (\<lambda>r. isin (Node_id r) node_ids) (s ! filtered_df))
             else (filtered_df, s));
          (filtered_df, s) =
            (if truthy classes
             then alloc s (filter (\<lambda>r. isin (Class r) classes) (s ! filtered_df))
             else (filtered_df, s))
      in (filtered_df, s))"

text \<open>The two example rows that app.py shows as the expected data format.\<close>

definition example_data :: "row list" where
  "example_data =
     [\<lparr>Event = 1, Time = Fin (1 / 10), S_Node = 79, Node_id = 79,
        Rest_Energy = Fin 600, Class = ''normal''\<rparr>,
      \<lparr>Event = 2, Time = Fin (15 / 100), S_Node = 78, Node_id = 78,
        Rest_Energy = Fin (59997 / 100), Class = ''Blackhole''\<rparr>]"

section \<open>Counting values: \<open>value_counts\<close>, \<open>nlargest\<close>, the top nodes (app.py)\<close>

text \<open>The distinct values of a column in order of first appearance (\<open>Series.unique\<close>).\<close>

definition unique :: "'b list \<Rightarrow> 'b list" where
  "unique xs = rev (remdups (rev xs))"

text \<open>Each distinct value with the number of its occurrences, before any sorting.\<close>

definition counts :: "'b list \<Rightarrow> ('b \<times> nat) list" where
  "counts xs = map (\<lambda>k. (k, count_list xs k)) (unique xs)"

text \<open>
  The sorting inside pandas is not in the repository, and the code fixes neither a sort
  kind nor a pandas version, so the order that the library gives to equal counts is a
  parameter. \<open>sort_values(ascending=False)\<close> and \<open>nlargest(n)\<close> both work on the
  array of counts alone and return positions in it; the labels are then taken at these
  positions. \<open>argsort_desc cs\<close> stands for the positions in the order in which
  \<open>sort_values\<close> puts them, \<open>nlargest_idx n cs\<close> for the positions that \<open>nlargest\<close>
  selects.
\<close>

record lib =
  argsort_desc :: "nat list \<Rightarrow> nat list"
  nlargest_idx :: "nat \<Rightarrow> nat list \<Rightarrow> nat list"

text \<open>
  The entries of a Series at the given positions. The library only returns positions
  inside the Series; a position outside it is skipped.
\<close>

definition pick :: "'b list \<Rightarrow> nat list \<Rightarrow> 'b list" where
  "pick s ps = map (\<lambda>i. s ! i) (filter (\<lambda>i. i < length s) ps)"

definition value_counts :: "lib \<Rightarrow> 'b list \<Rightarrow> ('b \<times> nat) list" where
  "value_counts lib xs = (let s = counts xs in pick s (argsort_desc lib (map snd s)))"

definition nlargest :: "lib \<Rightarrow> nat \<Rightarrow> ('b \<times> nat) list \<Rightarrow> ('b \<times> nat) list" where
  "nlargest lib n s = pick s (nlargest_idx lib n (map snd s))"

text \<open>\<open>df['Node_id'].value_counts().nlargest(top_n).index\<close>\<close>

definition top_nodes :: "lib \<Rightarrow> nat \<Rightarrow> 'a dataset \<Rightarrow> int list" where
  "top_nodes lib top_n df =
     map fst (nlargest lib top_n (value_counts lib (map Node_id df)))"

text \<open>
  What the documentation of pandas promises of the two calls, whatever they do with
  equal counts: \<open>sort_values(ascending=False)\<close> rearranges the entries into
  non-increasing order, and \<open>nlargest(n)\<close> returns the first \<open>n\<close> entries of such a
  rearrangement.
\<close>

definition desc_perm :: "nat list \<Rightarrow> nat list \<Rightarrow> bool" where
  "desc_perm cs p =
     (distinct p \<and> set p = {..<length cs} \<and> sorted_wrt (\<lambda>i j. cs ! j \<le> cs ! i) p)"

definition lib_ok :: "lib \<Rightarrow> bool" where
  "lib_ok lib =
     ((\<forall>cs. desc_perm cs (argsort_desc lib cs))
      \<and> (\<forall>n cs. \<exists>p. desc_perm cs p \<and> nlargest_idx lib n cs = take n p))"

text \<open>One library that does so: a stable sort, which leaves equal counts in place.\<close>

definition stable_argsort :: "nat list \<Rightarrow> nat list" where
  "stable_argsort cs = sort_key (\<lambda>i. - int (cs ! i)) [0..<length cs]"

definition stable_nlargest :: "nat \<Rightarrow> nat list \<Rightarrow> nat list" where
  "stable_nlargest n cs = take n (stable_argsort cs)"

definition stable_lib :: lib where
  "stable_lib = \<lparr>argsort_desc = stable_argsort, nlargest_idx = stable_nlargest\<rparr>"

section \<open>\<open>get_stats\<close> (utils.py)\<close>

text \<open>
  The reductions of pandas skip \<open>NaN\<close> cells and give \<open>NaN\<close> when nothing is left:
  \<open>min\<close>, \<open>max\<close> and \<open>mean\<close> of an empty Series are \<open>NaN\<close>, no exception is raised.
  The rounding of the floating-point mean is not modelled: \<open>fmean\<close> stands for the
  mean of a non-empty list of numbers. The class distribution is the dict of
  \<open>value_counts\<close>, kept as the list of its items in the order of the library \<open>lib\<close>.
\<close>

definition dropna :: "pyfloat list \<Rightarrow> pyfloat list" where
  "dropna xs = filter (\<lambda>x. x \<noteq> NaN) xs"

definition series_min :: "pyfloat list \<Rightarrow> pyfloat" where
  "series_min xs =
     (case dropna xs of
        [] \<Rightarrow> NaN
      | y # ys \<Rightarrow> fold (\<lambda>x m. if fle x m then x else m) ys y)"

definition series_max :: "pyfloat list \<Rightarrow> pyfloat" where
  "series_max xs =
     (case dropna xs of
        [] \<Rightarrow> NaN
      | y # ys \<Rightarrow> fold (\<lambda>x m. if fle m x then x else m) ys y)"

definition series_mean :: "(pyfloat list \<Rightarrow> pyfloat) \<Rightarrow> pyfloat list \<Rightarrow> pyfloat" where
  "series_mean fmean xs = (case dropna xs of [] \<Rightarrow> NaN | y # ys \<Rightarrow> fmean (y # ys))"

record stats =
  total_records :: nat
  unique_nodes :: nat
  time_range :: "pyfloat \<times> pyfloat"
  class_distribution :: "(string \<times> nat) list"
  avg_energy :: pyfloat
  min_energy :: pyfloat
  max_energy :: pyfloat

definition get_stats :: "lib \<Rightarrow> (pyfloat list \<Rightarrow> pyfloat) \<Rightarrow> 'a dataset \<Rightarrow> stats" where
  "get_stats lib fmean df =
     \<lparr>total_records = length df,
      unique_nodes = length (unique (map Node_id df)),
      time_range = (series_min (map Time df), series_max (map Time df)),
      class_distribution = value_counts lib (map Class df),
      avg_energy = series_mean fmean (map Rest_Energy df),
      min_energy = series_min (map Rest_Energy df),
      max_energy = series_max (map Rest_Energy df)\<rparr>"

section \<open>\<open>load_data\<close> (utils.py)\<close>

text \<open>
  An exception is its class and its message \<open>str(e)\<close>. Only the classes that the code
  raises or handles are listed, each with its superclasses among them.
\<close>

datatype exc_class =
  KeyboardInterrupt | Exception | FileNotFoundError | KeyError | ValueError | ParserError

type_synonym exc = "exc_class \<times> string"

fun supers :: "exc_class \<Rightarrow> exc_class list" where
  "supers KeyboardInterrupt = [KeyboardInterrupt]"
| "supers Exception = [Exception]"
| "supers FileNotFoundError = [FileNotFoundError, Exception]"
| "supers KeyError = [KeyError, Exception]"
| "supers ValueError = [ValueError, Exception]"
| "supers ParserError = [ParserError, ValueError, Exception]"

text \<open>\<open>except C\<close> catches an exception whose class is \<open>C\<close> or a subclass of it.\<close>

definition catches :: "exc_class \<Rightarrow> exc \<Rightarrow> bool" where
  "catches c e = (c \<in> set (supers (fst e)))"

text \<open>
  The DataFrame that \<open>pd.read_csv\<close> returns, by columns: the header names in order,
  each with its column. The column contents and the conversions of pandas are not in the
  repository: a column is a value of a type parameter, \<open>read_csv\<close> and \<open>astype\<close>
  are parameters that return a result or raise.
\<close>

type_synonym 'c frame = "(string \<times> 'c) list"

datatype dtype = int_t | float_t | str_t

definition columns :: "'c frame \<Rightarrow> string list" where
  "columns df = map fst df"

definition expected_columns :: "string list" where
  "expected_columns =
     [''Event'', ''Time'', ''S_Node'', ''Node_id'', ''Rest_Energy'',
      ''Trace_Level'', ''Mac_Type_Pckt'', ''Source_IP_Port'',
      ''Des_IP_Port'', ''Packet_Size'', ''TTL'', ''Hop_Count'',
      ''Broadcast_ID'', ''Dest_Node_Num'', ''Dest_Seq_Num'',
      ''Src_Node_ID'', ''Src_Seq_Num'', ''Class'']"

definition missing_columns :: "'c frame \<Rightarrow> string list" where
  "missing_columns df = [col \<leftarrow> expected_columns. col \<notin> set (columns df)]"

text \<open>\<open>sep.join(xs)\<close>\<close>

fun join :: "string \<Rightarrow> string list \<Rightarrow> string" where
  "join sep [] = []"
| "join sep [x] = x"
| "join sep (x # y # ys) = x @ sep @ join sep (y # ys)"

text \<open>\<open>df[name] = df[name].astype(t)\<close>: look the column up, convert it, store it back.\<close>

definition coerce ::
  "(dtype \<Rightarrow> 'c \<Rightarrow> exc + 'c) \<Rightarrow> string \<Rightarrow> dtype \<Rightarrow> 'c frame \<Rightarrow> exc + 'c frame" where
  "coerce astype name t df =
     (case map_of df name of
        None \<Rightarrow> Inl (KeyError, name)
      | Some c \<Rightarrow>
          (case astype t c of
             Inl e \<Rightarrow> Inl e
           | Inr c' \<Rightarrow> Inr (AList.update name c' df)))"

definition bind_exc :: "exc + 'x \<Rightarrow> ('x \<Rightarrow> exc + 'y) \<Rightarrow> exc + 'y" where
  "bind_exc m f = (case m of Inl e \<Rightarrow> Inl e | Inr x \<Rightarrow> f x)"

text \<open>The body of the \<open>try\<close> block.\<close>

definition load_body ::
  "('p \<Rightarrow> exc + 'c frame) \<Rightarrow> (dtype \<Rightarrow> 'c \<Rightarrow> exc + 'c) \<Rightarrow> 'p \<Rightarrow> exc + 'c frame" where
  "load_body read_csv astype file_path =
     bind_exc (read_csv file_path) (\<lambda>df.
       if missing_columns df \<noteq> []
       then Inl (ValueError, ''Missing required columns: '' @ join '', '' (missing_columns df))
       else
         bind_exc (coerce astype ''Event'' int_t df) (\<lambda>df.
         bind_exc (coerce astype ''Time'' float_t df) (\<lambda>df.
         bind_exc (coerce astype ''S_Node'' int_t df) (\<lambda>df.
         bind_exc (coerce astype ''Node_id'' int_t df) (\<lambda>df.
         bind_exc (coerce astype ''Rest_Energy'' float_t df) (\<lambda>df.
         bind_exc (coerce astype ''Class'' str_t df) (\<lambda>df.
         Inr df)))))))"

text \<open>\<open>except Exception as e: raise Exception(f"Error loading data: {str(e)}")\<close>\<close>

definition load_data ::
  "('p \<Rightarrow> exc + 'c frame) \<Rightarrow> (dtype \<Rightarrow> 'c \<Rightarrow> exc + 'c) \<Rightarrow> 'p \<Rightarrow> exc + 'c frame" where
  "load_data read_csv astype file_path =
     (case load_body read_csv astype file_path of
        Inl e \<Rightarrow>
          (if catches Exception e
           then Inl (Exception, ''Error loading data: '' @ snd e)
           else Inl e)
      | Inr df \<Rightarrow> Inr df)"

text \<open>
  The demo branch of app.py: \<open>load_data\<close> in a \<open>try\<close> whose handler is
  \<open>except FileNotFoundError\<close>, which reports that the demo dataset was not found and
  stops the script.
\<close>

datatype 'c demo_outcome = Loaded "'c frame" | DemoNotFound | Uncaught exc

definition demo_load ::
  "('p \<Rightarrow> exc + 'c frame) \<Rightarrow> (dtype \<Rightarrow> 'c \<Rightarrow> exc + 'c) \<Rightarrow> 'p \<Rightarrow> 'c demo_outcome" where
  "demo_load read_csv astype file_path =
     (case load_data read_csv astype file_path of
        Inr df \<Rightarrow> Loaded df
      | Inl e \<Rightarrow> (if catches FileNotFoundError e then DemoNotFound else Uncaught e))"

text \<open>Sample readers and converters for the concrete evaluations below.\<close>

definition read_missing_file :: "unit \<Rightarrow> exc + unit frame" where
  "read_missing_file p = Inl (FileNotFoundError, ''No such file or directory'')"

definition read_two_columns :: "unit \<Rightarrow> exc + unit frame" where
  "read_two_columns p = Inr [(''Event'', ()), (''Time'', ())]"

definition read_all_columns :: "unit \<Rightarrow> exc + unit frame" where
  "read_all_columns p = Inr (map (\<lambda>n. (n, ())) expected_columns)"

definition astype_ok :: "dtype \<Rightarrow> unit \<Rightarrow> exc + unit" where
  "astype_ok t c = Inr c"

definition astype_bad_float :: "dtype \<Rightarrow> unit \<Rightarrow> exc + unit" where
  "astype_bad_float t c =
     (if t = float_t then Inl (ValueError, ''could not convert string to float'') else Inr c)"

section \<open>\<open>send_wsn_data_to_blockchain\<close> (blockchain.py)\<close>

text \<open>
  A Python \<open>str\<close> is a sequence of code points. It may hold a surrogate code point
  (\<open>U+D800\<close> to \<open>U+DFFF\<close>), which \<open>str.encode('utf-8')\<close> refuses with a
  \<open>UnicodeEncodeError\<close>; every other code point is encoded in one to four bytes.
  The encoder returns the position of the first refused code point or the bytes.
\<close>

type_synonym pystr = "nat list"

definition surrogate :: "nat \<Rightarrow> bool" where
  "surrogate c = (0xD800 \<le> c \<and> c \<le> 0xDFFF)"

definition utf8_char :: "nat \<Rightarrow> nat list" where
  "utf8_char c =
     (if c < 0x80 then [c]
      else if c < 0x800 then [0xC0 + c div 64, 0x80 + c mod 64]
      else if c < 0x10000 then [0xE0 + c div 4096, 0x80 + c div 64 mod 64, 0x80 + c mod 64]
      else [0xF0 + c div 262144, 0x80 + c div 4096 mod 64, 0x80 + c div 64 mod 64,
            0x80 + c mod 64])"

definition utf8_encode :: "pystr \<Rightarrow> nat + nat list" where
  "utf8_encode s =
     (if list_ex surrogate s
      then Inl (length (takeWhile (\<lambda>c. \<not> surrogate c) s))
      else Inr (concat (map utf8_char s)))"

text \<open>The decimal digits of a natural number.\<close>

fun digits :: "nat \<Rightarrow> pystr" where
  "digits n = (if n < 10 then [48 + n] else digits (n div 10) @ [48 + n mod 10])"

declare digits.simps [simp del]

text \<open>\<open>bytes.hex()\<close>: two lower-case hexadecimal digits for each byte.\<close>

definition hexdigits :: string where
  "hexdigits = ''0123456789abcdef''"

definition hex_digit :: "nat \<Rightarrow> char" where
  "hex_digit n = hexdigits ! n"

definition hex_byte :: "nat \<Rightarrow> string" where
  "hex_byte b = [hex_digit (b div 16 mod 16), hex_digit (b mod 16)]"

definition hex :: "nat list \<Rightarrow> string" where
  "hex bs = concat (map hex_byte bs)"

text \<open>
  What the function takes from its libraries, its interpreter and its environment, none
  of it in the repository: the Keccak-256 function behind \<open>Web3.keccak\<close>, the \<open>repr\<close>
  of a float that the f-string uses, whether \<open>HexBytes.hex()\<close> of the installed version
  puts \<open>0x\<close> in front of the digits, the text \<open>str(e)\<close> of the \<open>UnicodeEncodeError\<close>
  for a position, the limit of CPython on the digits of an int that is converted to a
  string (\<open>sys.get_int_max_str_digits()\<close>: 4300 by default, otherwise at least 640,
  or 0 for no limit, as in the versions that have none) with the text of the
  \<open>ValueError\<close> raised beyond it, and the clock value \<open>time.time()\<close>.
\<close>

record env =
  keccak :: "nat list \<Rightarrow> nat list"
  repr_float :: "pyfloat \<Rightarrow> pystr"
  hex_0x :: bool
  encode_error :: "nat \<Rightarrow> string"
  int_max_str_digits :: nat
  int_str_error :: string
  now :: pyfloat

text \<open>
  \<open>str\<close> of an int, as the f-string calls it: a \<open>ValueError\<close> when the int has more
  digits (the sign not counted) than the limit allows, otherwise the decimal digits,
  after a minus sign when the int is negative.
\<close>

definition int_too_long :: "env \<Rightarrow> int \<Rightarrow> bool" where
  "int_too_long env i =
     (int_max_str_digits env \<noteq> 0 \<and> int_max_str_digits env < length (digits (nat \<bar>i\<bar>)))"

definition str_int :: "env \<Rightarrow> int \<Rightarrow> string + pystr" where
  "str_int env i =
     (if int_too_long env i then Inl (int_str_error env)
      else Inr (if i < 0 then 45 # digits (nat \<bar>i\<bar>) else digits (nat \<bar>i\<bar>)))"

text \<open>
  \<open>f"{node_id}-{energy}-{node_class}-{timestamp}-{time.time()}"\<close>: the fields are
  formatted from left to right, \<open>node_id\<close> first.
\<close>

definition message :: "env \<Rightarrow> int \<Rightarrow> pyfloat \<Rightarrow> pystr \<Rightarrow> pyfloat \<Rightarrow> string + pystr" where
  "message env node_id energy node_class timestamp =
     (case str_int env node_id of
        Inl e \<Rightarrow> Inl e
      | Inr s \<Rightarrow>
          Inr (s @ [45] @ repr_float env energy @ [45] @ node_class @ [45]
                 @ repr_float env timestamp @ [45] @ repr_float env (now env)))"

text \<open>
  The \<open>try\<close> block builds the message, hashes its UTF-8 bytes and returns \<open>True\<close> with
  the digest in hexadecimal; the handler \<open>except Exception as e\<close> returns \<open>False\<close>
  with \<open>str(e)\<close>. The half second of \<open>time.sleep\<close> does not change what is returned.
  Running out of memory is not modelled.
\<close>

definition send_wsn_data_to_blockchain ::
  "env \<Rightarrow> int \<Rightarrow> pyfloat \<Rightarrow> pystr \<Rightarrow> pyfloat \<Rightarrow> bool \<times> string" where
  "send_wsn_data_to_blockchain env node_id energy node_class timestamp =
     (case message env node_id energy node_class timestamp of
        Inl e \<Rightarrow> (False, e)
      | Inr msg \<Rightarrow>
          (case utf8_encode msg of
             Inl pos \<Rightarrow> (False, encode_error env pos)
           | Inr input_bytes \<Rightarrow>
               (True, (if hex_0x env then ''0x'' else []) @ hex (keccak env input_bytes))))"

text \<open>
  A transaction hash as the function returns it: 64 hexadecimal digits, after \<open>0x\<close>
  when the flag says so.
\<close>

definition hex_digest :: "bool \<Rightarrow> string \<Rightarrow> bool" where
  "hex_digest p h =
     (let d = (if p then drop 2 h else h)
      in (if p then take 2 h = ''0x'' else True)
         \<and> length d = 64 \<and> list_all (\<lambda>c. c \<in> set hexdigits) d)"

text \<open>A sample environment for the concrete evaluations below.\<close>

definition sample_repr :: "pyfloat \<Rightarrow> pystr" where
  "sample_repr x = [48, 46, 48]"

definition sample_keccak :: "nat list \<Rightarrow> nat list" where
  "sample_keccak bs = replicate 32 (length bs)"

definition sample_error :: "nat \<Rightarrow> string" where
  "sample_error pos = ''surrogates not allowed''"

definition sample_env :: env where
  "sample_env = \<lparr>keccak = sample_keccak, repr_float = sample_repr, hex_0x = False,
                  encode_error = sample_error, int_max_str_digits = 4300,
                  int_str_error = ''Exceeds the limit (4300 digits) for integer string conversion'',
                  now = Fin 0\<rparr>"

section \<open>Properties of \<open>filter_data\<close>\<close>

lemma filter_data_filter:
  "filter_data df tr ns cs = filter (keeps tr ns cs) df"
  by (auto simp: filter_data_def keeps_def Let_def split: option.splits intro: filter_cong)

lemma truthy_Some: "truthy (Some xs) = (xs \<noteq> [])"
  by (cases xs) simp_all

text \<open>
  C2. A \<open>node_ids\<close> or \<open>classes\<close> argument that is given but empty restricts nothing:
  the result is the one obtained without the argument, and with no other clause it is
  the whole dataset.
\<close>

theorem filter_data_empty_clause:
  "filter_data d tr (Some []) cs = filter_data d tr None cs
   \<and> filter_data d tr ns (Some []) = filter_data d tr ns None
   \<and> filter_data d None (Some []) None = d
   \<and> filter_data d None None (Some []) = d
   \<and> filter_data d None (Some []) (Some []) = d"
  by (simp add: filter_data_def)

text \<open>
  C5. With a time range, a non-empty \<open>node_ids\<close> and a non-empty \<open>classes\<close>, the result
  is exactly the rows of \<open>d\<close>, in order, that satisfy all three clauses: \<open>Time\<close> between
  the bounds, both included, \<open>Node_id\<close> among \<open>node_ids\<close>, \<open>Class\<close> among \<open>classes\<close>.
  So a row is in the result if and only if it is in \<open>d\<close> and satisfies the three.
\<close>

theorem filter_data_conjunction:
  assumes "ns \<noteq> []" and "cs \<noteq> []"
  shows "filter_data d (Some (lo, hi)) (Some ns) (Some cs)
           = filter (\<lambda>r. fle lo (Time r) \<and> fle (Time r) hi
                          \<and> Node_id r \<in> set ns \<and> Class r \<in> set cs) d
         \<and> (r \<in> set (filter_data d (Some (lo, hi)) (Some ns) (Some cs))
              \<longleftrightarrow> r \<in> set d \<and> fle lo (Time r) \<and> fle (Time r) hi
                    \<and> Node_id r \<in> set ns \<and> Class r \<in> set cs)"
  using assms by (auto simp: filter_data_def truthy_Some isin_def intro: filter_cong)

theorem filter_data_conjunction_witness:
  "[78::int] \<noteq> [] \<and> [''Blackhole''] \<noteq> []
   \<and> filter_data example_data (Some (Fin 0, Fin 1)) (Some [78]) (Some [''Blackhole''])
        = [example_data ! 1]
   \<and> example_data ! 1
        \<in> set (filter_data example_data (Some (Fin 0, Fin 1)) (Some [78]) (Some [''Blackhole'']))
   \<and> example_data ! 0
        \<notin> set (filter_data example_data (Some (Fin 0, Fin 1)) (Some [78]) (Some [''Blackhole'']))"
  using filter_data_conjunction
          [of "[78]" "[''Blackhole'']" example_data "Fin 0" "Fin 1" "example_data ! 1"]
        filter_data_conjunction
          [of "[78]" "[''Blackhole'']" example_data "Fin 0" "Fin 1" "example_data ! 0"]
  by (simp add: example_data_def)

text \<open>
  C7. Filtering is idempotent: filtering the result again with the same arguments
  changes nothing.
\<close>

theorem filter_data_idempotent:
  "filter_data (filter_data d tr ns cs) tr ns cs = filter_data d tr ns cs"
  by (simp add: filter_data_filter)

text \<open>
  C8. The result is a subsequence of the input: its rows are rows of \<open>d\<close>, none
  repeated or invented, in the order they have in \<open>d\<close>. Without any clause the result
  is \<open>d\<close> itself.
\<close>

theorem filter_data_subseq:
  "subseq (filter_data d tr ns cs) d \<and> filter_data d None None None = d"
  by (simp add: filter_data_filter keeps_def)

text \<open>
  C9. On the store, \<open>filter_data\<close> leaves every object that existed before the call as
  it was, the source \<open>df\<close> among them, and returns a new object, whose rows are those
  that \<open>filter_data\<close> computes from the rows of \<open>df\<close>.
\<close>

theorem filter_data_st_frame:
  assumes "df < length s" and "filter_data_st s df tr ns cs = (r, s')"
  shows "take (length s) s' = s \<and> s' ! df = s ! df \<and> length s \<le> r \<and> r < length s'
          \<and> s' ! r = filter_data (s ! df) tr ns cs"
  using assms
  by (auto simp: filter_data_st_def filter_data_def alloc_def Let_def nth_append
           split: option.splits if_splits)

theorem filter_data_st_frame_witness:
  "(0::nat) < length [example_data]
   \<and> filter_data_st [example_data] 0 None None (Some [''Blackhole''])
        = (2, [example_data, example_data, [example_data ! 1]])
   \<and> [example_data, example_data, [example_data ! 1]] ! 0 = example_data
   \<and> [example_data, example_data, [example_data ! 1]] ! 2
        = filter_data example_data None None (Some [''Blackhole''])"
proof -
  have a: "(0::nat) < length [example_data]"
    by simp
  have b: "filter_data_st [example_data] 0 None None (Some [''Blackhole''])
             = (2, [example_data, example_data, [example_data ! 1]])"
    by (simp add: filter_data_st_def alloc_def example_data_def isin_def)
  show ?thesis
    using filter_data_st_frame [OF a b] a b by simp
qed

section \<open>Properties of \<open>get_stats\<close>\<close>

text \<open>
  C4. On the dataset without rows \<open>get_stats\<close> returns, without raising: 0 records,
  0 distinct nodes, and \<open>NaN\<close>, the missing-value marker of pandas, for both ends of the
  time range and for the mean, minimum and maximum of \<open>Rest_Energy\<close>.
\<close>

theorem get_stats_empty:
  "get_stats lib fmean [] =
     \<lparr>total_records = 0, unique_nodes = 0, time_range = (NaN, NaN),
      class_distribution = [], avg_energy = NaN, min_energy = NaN, max_energy = NaN\<rparr>"
  by (simp add: get_stats_def unique_def series_min_def series_max_def series_mean_def
        dropna_def value_counts_def counts_def pick_def)

section \<open>Properties of \<open>load_data\<close>\<close>

lemma set_missing_columns:
  "set (missing_columns df) = set expected_columns - set (columns df)"
  by (auto simp: missing_columns_def)

lemma distinct_expected_columns: "distinct expected_columns"
  by (simp add: expected_columns_def)

text \<open>The value of a load whose parsed header lacks a required column.\<close>

lemma load_data_missing_columns_value:
  assumes "read_csv src = Inr df" and "missing_columns df \<noteq> []"
  shows "load_data read_csv astype src
           = Inl (Exception, ''Error loading data: Missing required columns: ''
                     @ join '', '' (missing_columns df))"
proof -
  have "load_body read_csv astype src
          = Inl (ValueError, ''Missing required columns: '' @ join '', '' (missing_columns df))"
    using assms by (simp add: load_body_def bind_exc_def)
  then show ?thesis
    by (simp add: load_data_def catches_def)
qed

text \<open>
  C6, as the code has it. When the parsed header lacks a required column, \<open>load_data\<close>
  raises and returns no DataFrame, and the message of the exception lists the missing
  columns, each once, all of them and no other. Of which class the exception is, the
  statement does not say.
\<close>

theorem load_data_missing_columns:
  assumes "read_csv src = Inr df" and "\<exists>c \<in> set expected_columns. c \<notin> set (columns df)"
  shows "(\<exists>k. load_data read_csv astype src
                = Inl (k, ''Error loading data: Missing required columns: ''
                          @ join '', '' (missing_columns df)))
         \<and> set (missing_columns df) = set expected_columns - set (columns df)
         \<and> distinct (missing_columns df)
         \<and> missing_columns df \<noteq> []"
proof -
  from assms(2) have ne: "missing_columns df \<noteq> []"
    by (auto simp: missing_columns_def filter_empty_conv)
  have ld: "\<exists>k. load_data read_csv astype src
                  = Inl (k, ''Error loading data: Missing required columns: ''
                            @ join '', '' (missing_columns df))"
    using load_data_missing_columns_value
            [where read_csv = read_csv and src = src and df = df and astype = astype]
          assms(1) ne
    by blast
  have di: "distinct (missing_columns df)"
    by (simp add: missing_columns_def distinct_expected_columns)
  from ld set_missing_columns di ne show ?thesis
    by blast
qed

theorem load_data_missing_columns_witness:
  "read_two_columns () = Inr [(''Event'', ()), (''Time'', ())]
   \<and> (\<exists>c \<in> set expected_columns. c \<notin> set (columns [(''Event'', ()), (''Time'', ())]))
   \<and> (\<exists>k. load_data read_two_columns astype_ok ()
       = Inl (k, ''Error loading data: Missing required columns: S_Node, Node_id, Rest_Energy, Trace_Level, Mac_Type_Pckt, Source_IP_Port, Des_IP_Port, Packet_Size, TTL, Hop_Count, Broadcast_ID, Dest_Node_Num, Dest_Seq_Num, Src_Node_ID, Src_Seq_Num, Class''))"
proof -
  have a: "read_two_columns () = Inr [(''Event'', ()), (''Time'', ())]"
    by (simp add: read_two_columns_def)
  have b: "\<exists>c \<in> set expected_columns. c \<notin> set (columns [(''Event'', ()), (''Time'', ())])"
    by (simp add: expected_columns_def columns_def)
  have m: "missing_columns [(''Event'', ()), (''Time'', ())] = drop 2 expected_columns"
    by (simp add: missing_columns_def expected_columns_def columns_def)
  show ?thesis
    using load_data_missing_columns
            [where read_csv = read_two_columns and src = "()" and astype = astype_ok
               and df = "[(''Event'', ()), (''Time'', ())]"] a b
    by (simp add: m) (simp add: expected_columns_def)
qed

text \<open>
  C6 as stated fails: the error for missing columns is no kind of its own. On the header
  with two columns it has the class \<open>Exception\<close>, the class that the error for a file
  that cannot be read has too.
\<close>

theorem load_data_schema_kind_counterexample:
  "load_data read_two_columns astype_ok ()
     = Inl (Exception, ''Error loading data: Missing required columns: S_Node, Node_id, Rest_Energy, Trace_Level, Mac_Type_Pckt, Source_IP_Port, Des_IP_Port, Packet_Size, TTL, Hop_Count, Broadcast_ID, Dest_Node_Num, Dest_Seq_Num, Src_Node_ID, Src_Seq_Num, Class'')
   \<and> load_data read_missing_file astype_ok ()
     = Inl (Exception, ''Error loading data: No such file or directory'')
   \<and> fst (projl (load_data read_two_columns astype_ok ()))
     = fst (projl (load_data read_missing_file astype_ok ()))"
  by (simp add: load_data_def load_body_def bind_exc_def catches_def read_missing_file_def
       read_two_columns_def astype_ok_def missing_columns_def columns_def
       expected_columns_def)

text \<open>
  Whatever the reader and the converters do, a failed load has the class \<open>Exception\<close>
  (or is no \<open>Exception\<close> at all, as a \<open>KeyboardInterrupt\<close>, and passes through), and
  the demo branch never reaches its handler.
\<close>

lemma load_data_error_class:
  assumes "load_data read_csv astype src = Inl e"
  shows "fst e = Exception \<or> fst e = KeyboardInterrupt"
proof (cases "load_body read_csv astype src")
  case (Inl e0)
  show ?thesis
  proof (cases "catches Exception e0")
    case True
    with Inl assms show ?thesis by (auto simp: load_data_def)
  next
    case False
    then have "fst e0 = KeyboardInterrupt"
      by (cases "fst e0") (simp_all add: catches_def)
    with Inl False assms show ?thesis by (auto simp: load_data_def)
  qed
next
  case (Inr df)
  with assms show ?thesis by (simp add: load_data_def)
qed

lemma demo_load_handler_dead: "demo_load read_csv astype src \<noteq> DemoNotFound"
proof (cases "load_data read_csv astype src")
  case (Inl e)
  then have "fst e = Exception \<or> fst e = KeyboardInterrupt"
    by (rule load_data_error_class)
  then have "\<not> catches FileNotFoundError e"
    by (auto simp: catches_def)
  with Inl show ?thesis by (simp add: demo_load_def)
next
  case (Inr df)
  then show ?thesis by (simp add: demo_load_def)
qed

text \<open>
  C1. The three kinds of failure of a load, a source that cannot be read, a missing
  column, a cell that cannot be converted, reach the caller as one class, \<open>Exception\<close>;
  only the message text differs. The handler \<open>except FileNotFoundError\<close> of the demo
  branch of app.py therefore never runs: the missing demo file ends as an uncaught
  \<open>Exception\<close>.
\<close>

theorem load_data_one_error_class:
  "load_data read_missing_file astype_ok ()
     = Inl (Exception, ''Error loading data: No such file or directory'')
   \<and> load_data read_two_columns astype_ok ()
     = Inl (Exception, ''Error loading data: Missing required columns: ''
              @ join '', '' (drop 2 expected_columns))
   \<and> load_data read_all_columns astype_bad_float ()
     = Inl (Exception, ''Error loading data: could not convert string to float'')
   \<and> demo_load read_missing_file astype_ok ()
     = Uncaught (Exception, ''Error loading data: No such file or directory'')"
  by (simp add: load_data_def load_body_def bind_exc_def catches_def read_missing_file_def
       read_two_columns_def read_all_columns_def astype_ok_def astype_bad_float_def
       demo_load_def missing_columns_def columns_def expected_columns_def coerce_def)

section \<open>Properties of \<open>top_nodes\<close>\<close>

lemma desc_perm_length: "desc_perm cs p \<Longrightarrow> length p = length cs"
  unfolding desc_perm_def using distinct_card [of p] by auto

lemma pick_valid: "set p \<subseteq> {..<length s} \<Longrightarrow> pick s p = map (\<lambda>i. s ! i) p"
  unfolding pick_def
  by (rule arg_cong [where f = "map (\<lambda>i. s ! i)"]) (auto simp: filter_id_conv)

lemma pick_take: "set p \<subseteq> {..<length s} \<Longrightarrow> pick s (take n p) = take n (pick s p)"
proof -
  assume a: "set p \<subseteq> {..<length s}"
  then have "set (take n p) \<subseteq> {..<length s}"
    using set_take_subset [of n p] by blast
  with a show ?thesis by (simp add: pick_valid take_map)
qed

lemma pick_map: "pick (map g s) p = map g (pick s p)"
  by (simp add: pick_def)

text \<open>Taking a Series at a descending arrangement of its positions rearranges it.\<close>

lemma pick_perm:
  assumes "desc_perm (map snd s) p"
  shows "length (pick s p) = length s"
    and "set (pick s p) = set s"
    and "distinct (map fst s) \<Longrightarrow> distinct (map fst (pick s p))"
    and "sorted_wrt (\<lambda>a b. snd b \<le> snd a) (pick s p)"
proof -
  from assms have d: "distinct p" and sp: "set p = {..<length s}"
    and srt: "sorted_wrt (\<lambda>i j. map snd s ! j \<le> map snd s ! i) p"
    by (simp_all add: desc_perm_def)
  have pk: "pick s p = map (\<lambda>i. s ! i) p"
    by (rule pick_valid) (simp add: sp)
  show "length (pick s p) = length s"
    using desc_perm_length [OF assms] by (simp add: pk)
  show "set (pick s p) = set s"
  proof -
    have "set (pick s p) = (\<lambda>i. s ! i) ` {..<length s}"
      by (simp add: pk sp)
    also have "\<dots> = set s"
      unfolding set_conv_nth [of s] by auto
    finally show ?thesis .
  qed
  show "distinct (map fst (pick s p))" if ds: "distinct (map fst s)"
  proof -
    have "inj_on (\<lambda>i. fst (s ! i)) (set p)"
    proof (rule inj_onI)
      fix i j assume "i \<in> set p" "j \<in> set p" and e: "fst (s ! i) = fst (s ! j)"
      then have i: "i < length s" and j: "j < length s" by (simp_all add: sp)
      with e have "map fst s ! i = map fst s ! j" by simp
      moreover have "i < length (map fst s)" "j < length (map fst s)" using i j by simp_all
      ultimately show "i = j" using ds nth_eq_iff_index_eq [of "map fst s" i j] by blast
    qed
    with d show ?thesis by (simp add: pk distinct_map comp_def)
  qed
  have "sorted_wrt (\<lambda>i j. snd (s ! j) \<le> snd (s ! i)) p"
    using srt by (rule sorted_wrt_mono_rel [rotated]) (simp add: sp)
  then show "sorted_wrt (\<lambda>a b. snd b \<le> snd a) (pick s p)"
    by (simp add: pk sorted_wrt_map)
qed

lemma distinct_fst_counts: "distinct (map fst (counts xs))"
  by (simp add: counts_def comp_def unique_def)

lemma set_counts: "set (counts xs) = (\<lambda>k. (k, count_list xs k)) ` set xs"
  by (simp add: counts_def unique_def)

lemma length_counts: "length (counts xs) = card (set xs)"
proof -
  have "length (counts xs) = length (remdups (rev xs))" by (simp add: counts_def unique_def)
  also have "\<dots> = card (set (rev xs))" by (rule length_remdups_card_conv)
  finally show ?thesis by simp
qed

text \<open>
  With a library that sorts, the top nodes are the first \<open>n\<close> of an arrangement of all
  distinct \<open>Node_id\<close> values by non-increasing event count.
\<close>

lemma top_nodes_char:
  assumes ok: "lib_ok lib"
  shows "\<exists>ks. top_nodes lib n d = take n ks \<and> distinct ks \<and> set ks = Node_id ` set d
            \<and> length ks = card (Node_id ` set d)
            \<and> sorted_wrt (\<lambda>a b. count_list (map Node_id d) b \<le> count_list (map Node_id d) a) ks"
proof -
  let ?ids = "map Node_id d"
  let ?c = "counts ?ids"
  let ?vc = "value_counts lib ?ids"
  have p1: "desc_perm (map snd ?c) (argsort_desc lib (map snd ?c))"
    using ok by (simp add: lib_ok_def)
  have vc: "?vc = pick ?c (argsort_desc lib (map snd ?c))"
    by (simp add: value_counts_def Let_def)
  from ok obtain p2 where p2: "desc_perm (map snd ?vc) p2"
    and idx: "nlargest_idx lib n (map snd ?vc) = take n p2"
    unfolding lib_ok_def by blast
  let ?r = "pick ?vc p2"
  have "set p2 \<subseteq> {..<length ?vc}" using p2 by (simp add: desc_perm_def)
  then have res: "nlargest lib n ?vc = take n ?r"
    by (simp add: nlargest_def idx pick_take)
  have sr: "set ?r = set ?c"
    using pick_perm(2) [OF p2] pick_perm(2) [OF p1] by (simp add: vc)
  have dr: "distinct (map fst ?r)"
    using pick_perm(3) [OF p2] pick_perm(3) [OF p1] distinct_fst_counts [of ?ids]
    by (simp add: vc)
  have lr: "length ?r = card (set ?ids)"
    using pick_perm(1) [OF p2] pick_perm(1) [OF p1] length_counts [of ?ids] by (simp add: vc)
  have "sorted_wrt (\<lambda>a b. snd b \<le> snd a) ?r"
    by (rule pick_perm(4) [OF p2])
  then have "sorted_wrt (\<lambda>a b. count_list ?ids (fst b) \<le> count_list ?ids (fst a)) ?r"
    by (rule sorted_wrt_mono_rel [rotated]) (auto simp: sr set_counts)
  then have so: "sorted_wrt (\<lambda>a b. count_list ?ids b \<le> count_list ?ids a) (map fst ?r)"
    by (simp add: sorted_wrt_map)
  have se: "set (map fst ?r) = Node_id ` set d"
    by (auto simp: sr set_counts image_iff)
  have "top_nodes lib n d = take n (map fst ?r)"
    by (simp add: top_nodes_def res take_map)
  with dr se lr so show ?thesis
    by (intro exI [of _ "map fst ?r"]) simp
qed

lemma desc_perm_stable: "desc_perm cs (stable_argsort cs)"
proof -
  have "sorted (map (\<lambda>i. - int (cs ! i)) (stable_argsort cs))"
    unfolding stable_argsort_def by (rule sorted_sort_key)
  then have "sorted_wrt (\<lambda>i j. cs ! j \<le> cs ! i) (stable_argsort cs)"
    by (simp add: sorted_map)
  then show ?thesis
    by (auto simp: desc_perm_def stable_argsort_def)
qed

lemma lib_ok_stable: "lib_ok stable_lib"
  unfolding lib_ok_def stable_lib_def using desc_perm_stable
  by (auto simp: stable_nlargest_def)

text \<open>Renaming the values without touching the counts renames the result.\<close>

lemma top_relabel:
  assumes g: "\<And>x. snd (g x) = snd x"
  shows "nlargest lib n (pick (map g s) (argsort_desc lib (map snd (map g s))))
           = map g (nlargest lib n (pick s (argsort_desc lib (map snd s))))"
proof -
  have m: "map snd (map g x) = map snd x" for x
    by (simp add: g)
  show ?thesis
    by (simp only: nlargest_def pick_map m)
qed

text \<open>
  C3, as the code has it. Let the library sort: \<open>sort_values\<close> rearranges by
  non-increasing count and \<open>nlargest\<close> returns the first \<open>n\<close> of such a rearrangement.
  Then the top nodes are distinct \<open>Node_id\<close> values of the dataset, as many as asked for
  or all of them when there are fewer, in order of non-increasing event count, and no
  node left out has more events than a node returned. Nothing is said of the order
  among equal counts. On a dataset with \<open>Node_id\<close> 79 twice, 78 once and no other node,
  the top node is 79.
\<close>

theorem top_nodes_order:
  assumes ok: "lib_ok lib"
  shows "sorted_wrt (\<lambda>a b. count_list (map Node_id d) b \<le> count_list (map Node_id d) a)
           (top_nodes lib n d)
       \<and> distinct (top_nodes lib n d)
       \<and> set (top_nodes lib n d) \<subseteq> Node_id ` set d
       \<and> length (top_nodes lib n d) = min n (card (Node_id ` set d))
       \<and> (\<forall>k \<in> Node_id ` set d - set (top_nodes lib n d). \<forall>j \<in> set (top_nodes lib n d).
             count_list (map Node_id d) k \<le> count_list (map Node_id d) j)
       \<and> (count_list (map Node_id d) 79 = 2 \<and> count_list (map Node_id d) 78 = 1
            \<and> Node_id ` set d = {78, 79} \<longrightarrow> top_nodes lib 1 d = [79])"
proof -
  let ?ids = "map Node_id d"
  let ?ge = "\<lambda>a b. count_list ?ids b \<le> count_list ?ids a"
  from top_nodes_char [OF ok, of n d] obtain ks where
    t: "top_nodes lib n d = take n ks" and dk: "distinct ks" and sk: "set ks = Node_id ` set d"
    and lk: "length ks = card (Node_id ` set d)" and so: "sorted_wrt ?ge ks"
    by blast
  have 1: "sorted_wrt ?ge (top_nodes lib n d)"
    unfolding t using so by (rule sorted_wrt_take)
  have 2: "distinct (top_nodes lib n d)"
    unfolding t using dk by (rule distinct_take)
  have 3: "set (top_nodes lib n d) \<subseteq> Node_id ` set d"
    unfolding t using set_take_subset [of n ks] sk by simp
  have 4: "length (top_nodes lib n d) = min n (card (Node_id ` set d))"
    unfolding t by (simp add: lk min.commute)
  have "sorted_wrt ?ge (take n ks @ drop n ks)"
    using so by simp
  then have ap: "\<forall>x \<in> set (take n ks). \<forall>y \<in> set (drop n ks). ?ge x y"
    by (simp only: sorted_wrt_append) blast
  have "set ks = set (take n ks) \<union> set (drop n ks)"
    by (metis append_take_drop_id set_append)
  then have 5: "\<forall>k \<in> Node_id ` set d - set (top_nodes lib n d). \<forall>j \<in> set (top_nodes lib n d).
             count_list ?ids k \<le> count_list ?ids j"
    unfolding t using ap sk by blast
  have 6: "top_nodes lib 1 d = [79]"
    if sc: "count_list ?ids 79 = 2 \<and> count_list ?ids 78 = 1 \<and> Node_id ` set d = {78, 79}"
  proof -
    from top_nodes_char [OF ok, of 1 d] obtain ks1 where
      t1: "top_nodes lib 1 d = take 1 ks1" and s1: "set ks1 = Node_id ` set d"
      and so1: "sorted_wrt ?ge ks1"
      by blast
    from s1 sc obtain h tl where ht: "ks1 = h # tl"
      by (cases ks1) auto
    have "h = 79"
    proof (rule ccontr)
      assume ne: "h \<noteq> 79"
      with s1 sc ht have h: "h = 78" by auto
      have "79 \<in> set ks1" using s1 sc by simp
      with ne ht have "79 \<in> set tl" by auto
      with so1 ht have "count_list ?ids 79 \<le> count_list ?ids h" by simp
      with h sc show False by simp
    qed
    with t1 ht show ?thesis by simp
  qed
  from 1 2 3 4 5 6 show ?thesis by blast
qed

theorem top_nodes_order_witness:
  "lib_ok stable_lib
   \<and> count_list (map Node_id (example_data @ [example_data ! 0])) 79 = 2
   \<and> count_list (map Node_id (example_data @ [example_data ! 0])) 78 = 1
   \<and> Node_id ` set (example_data @ [example_data ! 0]) = {78, 79}
   \<and> top_nodes stable_lib 1 (example_data @ [example_data ! 0]) = [79]"
proof -
  have a: "count_list (map Node_id (example_data @ [example_data ! 0])) 79 = 2
           \<and> count_list (map Node_id (example_data @ [example_data ! 0])) 78 = 1
           \<and> Node_id ` set (example_data @ [example_data ! 0]) = {78, 79}"
    by (auto simp: example_data_def)
  show ?thesis
    using top_nodes_order [OF lib_ok_stable, of "example_data @ [example_data ! 0]" 1] a
          lib_ok_stable
    by blast
qed

text \<open>
  C3 as stated fails. In the two example rows, and in the same rows in reverse order,
  79 and 78 have one event each, so the claim asks for 78 before 79 on both datasets.
  The library sees the counts only, 1 and 1 on both: the positions it returns are the
  same, the labels at these positions are exchanged, and the two results are mirror
  images. Whatever the library does with equal counts, on one of the two datasets the
  result is not 78 before 79.
\<close>

theorem top_nodes_tie_counterexample:
  "\<not> (\<exists>lib. top_nodes lib 2 example_data = [78, 79]
            \<and> top_nodes lib 2 (rev example_data) = [78, 79])"
proof
  assume "\<exists>lib. top_nodes lib 2 example_data = [78, 79]
            \<and> top_nodes lib 2 (rev example_data) = [78, 79]"
  then obtain lib where a: "top_nodes lib 2 example_data = [78, 79]"
    and b: "top_nodes lib 2 (rev example_data) = [78, 79]"
    by blast
  let ?g = "\<lambda>kc :: int \<times> nat. (157 - fst kc, snd kc)"
  have ca: "counts (map Node_id example_data) = [(79, 1), (78, 1)]"
    by (simp add: counts_def unique_def example_data_def)
  have cb: "counts (map Node_id (rev example_data)) = map ?g [(79, 1), (78, 1)]"
    by (simp add: counts_def unique_def example_data_def)
  have "top_nodes lib 2 (rev example_data)
          = map fst (map ?g (nlargest lib 2 (pick [(79, 1), (78, 1)]
               (argsort_desc lib (map snd [(79, 1 :: nat), (78 :: int, 1)])))))"
    unfolding top_nodes_def value_counts_def Let_def cb
    by (subst top_relabel) simp_all
  also have "\<dots> = map (\<lambda>k. 157 - k) (top_nodes lib 2 example_data)"
    unfolding top_nodes_def value_counts_def Let_def ca by (simp add: comp_def)
  finally show False
    using a b by simp
qed

section \<open>Properties of \<open>send_wsn_data_to_blockchain\<close>\<close>

lemma digits_range: "c \<in> set (digits n) \<Longrightarrow> 48 \<le> c \<and> c \<le> 57"
proof (induction n arbitrary: c rule: digits.induct)
  case (1 n)
  show ?case
  proof (cases "n < 10")
    case True
    with "1.prems" show ?thesis by (simp add: digits.simps [of n])
  next
    case False
    with "1.prems" have "c \<in> set (digits (n div 10)) \<or> c = 48 + n mod 10"
      by (auto simp add: digits.simps [of n])
    moreover have "n mod 10 < 10" by simp
    ultimately show ?thesis using False "1.IH" [of c] by auto
  qed
qed

text \<open>The int \<open>10 ^ n\<close> has \<open>n + 1\<close> digits.\<close>

lemma length_digits_power: "length (digits (10 ^ n)) = Suc n"
proof (induction n)
  case 0
  show ?case by (simp add: digits.simps [of "Suc 0"])
next
  case (Suc n)
  have "\<not> (10::nat) ^ Suc n < 10" by simp
  then have "digits (10 ^ Suc n) = digits (10 ^ Suc n div 10) @ [48 + 10 ^ Suc n mod 10]"
    by (subst digits.simps) (simp only: if_False)
  with Suc show ?case by simp
qed

lemma int_too_long_power:
  "int_too_long env (10 ^ n) = (int_max_str_digits env \<noteq> 0 \<and> int_max_str_digits env < Suc n)"
proof -
  have "nat \<bar>(10::int) ^ n\<bar> = 10 ^ n"
    by (simp add: nat_power_eq)
  then show ?thesis
    by (simp only: int_too_long_def length_digits_power)
qed

lemma int_too_long_79: "\<not> int_too_long sample_env 79"
  by (simp add: int_too_long_def sample_env_def digits.simps [of 79] digits.simps [of 7])

lemma str_int_not_surrogate: "str_int env i = Inr s \<Longrightarrow> c \<in> set s \<Longrightarrow> \<not> surrogate c"
  by (auto simp: str_int_def surrogate_def dest!: digits_range split: if_splits)

lemma hex_digit_ok: "n < 16 \<Longrightarrow> hex_digit n \<in> set hexdigits"
  unfolding hex_digit_def by (rule nth_mem) (simp add: hexdigits_def)

lemma set_hex_byte: "set (hex_byte b) \<subseteq> set hexdigits"
  using hex_digit_ok [of "b div 16 mod 16"] hex_digit_ok [of "b mod 16"]
  by (simp add: hex_byte_def)

lemma set_hex: "set (hex bs) \<subseteq> set hexdigits"
  unfolding hex_def using set_hex_byte by (induction bs) auto

lemma length_hex: "length (hex bs) = 2 * length bs"
  by (induction bs) (simp_all add: hex_def hex_byte_def)

lemma utf8_encode_ok:
  "\<forall>c \<in> set s. \<not> surrogate c \<Longrightarrow> utf8_encode s = Inr (concat (map utf8_char s))"
  by (simp add: utf8_encode_def list_ex_iff)

lemma utf8_encode_fails: "\<exists>c \<in> set s. surrogate c \<Longrightarrow> \<exists>pos. utf8_encode s = Inl pos"
  by (simp add: utf8_encode_def list_ex_iff)

lemma message_too_long:
  "int_too_long env node_id \<Longrightarrow>
     message env node_id energy node_class timestamp = Inl (int_str_error env)"
  by (simp add: message_def str_int_def)

text \<open>When the message is built, only \<open>node_class\<close> can bring a surrogate into it.\<close>

lemma message_surrogate:
  assumes "\<forall>x. \<forall>c \<in> set (repr_float env x). c < 128"
      and "\<not> int_too_long env node_id"
  shows "\<exists>m. message env node_id energy node_class timestamp = Inr m
           \<and> ((\<exists>c \<in> set m. surrogate c) = (\<exists>c \<in> set node_class. surrogate c))"
proof -
  from assms(2) obtain s where s: "str_int env node_id = Inr s"
    by (simp add: str_int_def)
  have i: "\<not> surrogate c" if "c \<in> set s" for c
    using s that by (rule str_int_not_surrogate)
  have r: "\<not> surrogate c" if "c \<in> set (repr_float env x)" for c x
    using assms(1) that by (fastforce simp: surrogate_def)
  have m: "\<not> surrogate 45" by (simp add: surrogate_def)
  show ?thesis
    using r m i by (auto simp: message_def s)
qed

text \<open>
  C10, as the code has it. Let the \<open>repr\<close> of a float be ASCII and the Keccak-256
  digest have 32 bytes. For a \<open>node_id\<close> within the digit limit of the interpreter and
  a \<open>node_class\<close> without surrogate code points the function returns \<open>True\<close> and a
  non-empty transaction hash of 64 hexadecimal digits. For a \<open>node_id\<close> beyond the
  digit limit the f-string raises, and for a \<open>node_class\<close> with a surrogate code point
  the encoding raises: the handler runs and the function returns \<open>False\<close> with the
  error text.
\<close>

theorem send_wsn_data_result:
  assumes fl: "\<forall>x. \<forall>c \<in> set (repr_float env x). c < 128"
      and kc: "\<forall>bs. length (keccak env bs) = 32"
  shows "(\<not> int_too_long env node_id \<and> (\<forall>c \<in> set node_class. \<not> surrogate c) \<longrightarrow>
            fst (send_wsn_data_to_blockchain env node_id energy node_class timestamp) = True
            \<and> snd (send_wsn_data_to_blockchain env node_id energy node_class timestamp) \<noteq> []
            \<and> hex_digest (hex_0x env)
                 (snd (send_wsn_data_to_blockchain env node_id energy node_class timestamp)))
       \<and> (int_too_long env node_id \<longrightarrow>
            send_wsn_data_to_blockchain env node_id energy node_class timestamp
              = (False, int_str_error env))
       \<and> (\<not> int_too_long env node_id \<and> (\<exists>c \<in> set node_class. surrogate c) \<longrightarrow>
            (\<exists>pos. send_wsn_data_to_blockchain env node_id energy node_class timestamp
               = (False, encode_error env pos)))"
proof (intro conjI impI)
  let ?r = "send_wsn_data_to_blockchain env node_id energy node_class timestamp"
  {
    assume a: "\<not> int_too_long env node_id \<and> (\<forall>c \<in> set node_class. \<not> surrogate c)"
    then obtain m where m: "message env node_id energy node_class timestamp = Inr m"
      and "\<forall>c \<in> set m. \<not> surrogate c"
      using message_surrogate [OF fl, of node_id energy node_class timestamp] by blast
    then have "utf8_encode m = Inr (concat (map utf8_char m))"
      using utf8_encode_ok by blast
    then have r: "?r = (True, (if hex_0x env then ''0x'' else [])
                          @ hex (keccak env (concat (map utf8_char m))))"
      by (simp add: send_wsn_data_to_blockchain_def m)
    have l: "length (hex (keccak env (concat (map utf8_char m)))) = 64"
      using kc by (simp add: length_hex)
    show "fst ?r = True" by (simp add: r)
    from l show "snd ?r \<noteq> []" by (auto simp: r)
    from l show "hex_digest (hex_0x env) (snd ?r)"
      using set_hex [of "keccak env (concat (map utf8_char m))"]
      by (auto simp: r hex_digest_def list_all_iff)
  }
  {
    assume "int_too_long env node_id"
    then show "?r = (False, int_str_error env)"
      by (simp add: send_wsn_data_to_blockchain_def message_too_long)
  }
  {
    assume a: "\<not> int_too_long env node_id \<and> (\<exists>c \<in> set node_class. surrogate c)"
    then obtain m where m: "message env node_id energy node_class timestamp = Inr m"
      and "\<exists>c \<in> set m. surrogate c"
      using message_surrogate [OF fl, of node_id energy node_class timestamp] by blast
    then obtain pos where "utf8_encode m = Inl pos"
      using utf8_encode_fails by blast
    then show "\<exists>pos. ?r = (False, encode_error env pos)"
      by (auto simp: send_wsn_data_to_blockchain_def m)
  }
qed

theorem send_wsn_data_result_witness:
  "(\<forall>x. list_all (\<lambda>c. c < 128) (repr_float sample_env x))
   \<and> (\<forall>bs. length (keccak sample_env bs) = 32)
   \<and> \<not> int_too_long sample_env 79
   \<and> int_too_long sample_env (10 ^ 4300)
   \<and> list_all (\<lambda>c. \<not> surrogate c) [110, 111]
   \<and> list_ex surrogate [0xD800]
   \<and> fst (send_wsn_data_to_blockchain sample_env 79 (Fin 600) [110, 111] (Fin 0)) = True
   \<and> snd (send_wsn_data_to_blockchain sample_env 79 (Fin 600) [110, 111] (Fin 0)) \<noteq> []
   \<and> hex_digest (hex_0x sample_env)
        (snd (send_wsn_data_to_blockchain sample_env 79 (Fin 600) [110, 111] (Fin 0)))
   \<and> send_wsn_data_to_blockchain sample_env (10 ^ 4300) (Fin 600) [110, 111] (Fin 0)
        = (False, int_str_error sample_env)
   \<and> (\<exists>pos. send_wsn_data_to_blockchain sample_env 79 (Fin 600) [0xD800] (Fin 0)
         = (False, encode_error sample_env pos))"
proof -
  have a: "\<forall>x. \<forall>c \<in> set (repr_float sample_env x). c < 128"
    by (simp add: sample_env_def sample_repr_def)
  have b: "\<forall>bs. length (keccak sample_env bs) = 32"
    by (simp add: sample_env_def sample_keccak_def)
  have c: "\<forall>c \<in> set [110, 111::nat]. \<not> surrogate c"
    by (simp add: surrogate_def)
  have d: "\<exists>c \<in> set [0xD800::nat]. surrogate c"
    by (simp add: surrogate_def)
  have e: "\<not> int_too_long sample_env 79"
    by (rule int_too_long_79)
  have f: "int_too_long sample_env (10 ^ 4300)"
    unfolding int_too_long_power by (simp add: sample_env_def)
  show ?thesis
    using send_wsn_data_result [OF a b, of 79 "[110, 111]" "Fin 600" "Fin 0"]
          send_wsn_data_result [OF a b, of "10 ^ 4300" "[110, 111]" "Fin 600" "Fin 0"]
          send_wsn_data_result [OF a b, of 79 "[0xD800]" "Fin 600" "Fin 0"] a b c d e f
    unfolding list_all_iff list_ex_iff by blast
qed

text \<open>
  C10 as stated fails, the failure branch is reachable: with the lone surrogate
  \<open>U+D800\<close> as \<open>node_class\<close> the function returns \<open>False\<close> and the error text.
\<close>

theorem send_wsn_data_failure_counterexample:
  "send_wsn_data_to_blockchain sample_env 79 (Fin 600) [0xD800] (Fin 0)
     = (False, ''surrogates not allowed'')"
proof -
  have "message sample_env 79 (Fin 600) [0xD800] (Fin 0)
          = Inr ([55, 57, 45, 48, 46, 48, 45, 0xD800, 45, 48, 46, 48, 45, 48, 46, 48])"
    unfolding message_def str_int_def
    by (simp add: int_too_long_79 digits.simps [of 79] digits.simps [of 7])
       (simp add: sample_env_def sample_repr_def)
  then show ?thesis
    unfolding send_wsn_data_to_blockchain_def
    by (simp add: utf8_encode_def surrogate_def) (simp add: sample_env_def sample_error_def)
qed

end
